theory Spec2Isabelle
  imports Main
begin

section \<open>Python values, exceptions and the plotting library's interface\<close>

text \<open>
  The repository is one Python module, \<^verbatim>\<open>animator.py\<close>, with two classes,
  \<^verbatim>\<open>Animator\<close> and \<^verbatim>\<open>Plotter\<close>. Both store their constructor arguments and call
  matplotlib. The embedding keeps the fields of both classes as records, turns every
  \<^verbatim>\<open>raise\<close> into the left summand of a sum type, and makes the calls into matplotlib
  explicit: the state of the library is the sequence of calls it has received, each with
  the arguments it was given.
\<close>

text \<open>
  An exception is its class and its message; an exception of a class that the module never
  names is \<open>OtherError\<close>, with the name of the class. The messages of the exceptions that
  the interpreter raises itself are shortened.
\<close>

datatype error =
    AttributeError string
  | KeyError string
  | TypeError string
  | OtherError string string

text \<open>
  The array arguments of the plotting methods are dynamically typed. \<open>PFloat m e\<close> is
  the decimal literal \<open>m\<close> times ten to the power \<open>e\<close>; \<open>PArray\<close> is a sequence that is
  not a list (a numpy array), given by its elements along the first axis.
\<close>

datatype pyval =
    PNone
  | PInt int
  | PFloat int int
  | PList "pyval list"
  | PTuple "pyval list"
  | PArray "pyval list"

text \<open>\<^verbatim>\<open>len(v)\<close>: defined on sequences, a \<^verbatim>\<open>TypeError\<close> on everything else.\<close>

fun py_len :: "pyval \<Rightarrow> error + nat" where
  "py_len (PList xs) = Inr (length xs)"
| "py_len (PTuple xs) = Inr (length xs)"
| "py_len (PArray xs) = Inr (length xs)"
| "py_len PNone = Inl (TypeError ''object of type NoneType has no len()'')"
| "py_len (PInt n) = Inl (TypeError ''object of type int has no len()'')"
| "py_len (PFloat m e) = Inl (TypeError ''object of type float has no len()'')"

text \<open>\<^verbatim>\<open>type(v) is list\<close>.\<close>

fun type_is_list :: "pyval \<Rightarrow> bool" where
  "type_is_list (PList xs) = True"
| "type_is_list v = False"

text \<open>
  A Python string is a sequence of Unicode code points. \<^verbatim>\<open>str.isspace()\<close> is true when
  the string is not empty and every code point is whitespace: U+0009 to U+000D, U+001C
  to U+0020, U+0085, U+00A0, U+1680, U+2000 to U+200A, U+2028, U+2029, U+202F, U+205F
  and U+3000.
\<close>

type_synonym pystr = "nat list"

definition whitespace :: "nat \<Rightarrow> bool" where
  "whitespace c \<longleftrightarrow>
     (9 \<le> c \<and> c \<le> 13) \<or> (28 \<le> c \<and> c \<le> 32) \<or> c = 133 \<or> c = 160 \<or> c = 5760 \<or>
     (8192 \<le> c \<and> c \<le> 8202) \<or> c = 8232 \<or> c = 8233 \<or> c = 8239 \<or> c = 8287 \<or> c = 12288"

definition isspace :: "pystr \<Rightarrow> bool" where
  "isspace s \<longleftrightarrow> s \<noteq> [] \<and> list_all whitespace s"

text \<open>A callback is a function object, known here by its name only.\<close>

datatype func = Func string

text \<open>
  A colormap of the library has a name, its colours and its number of entries \<open>N\<close>; a
  normalization has its two bounds \<open>vmin\<close> and \<open>vmax\<close>, which are Python values.
\<close>

record colormap =
  cm_name :: string
  cm_colors :: "pyval list"
  cm_N :: nat

datatype normalize = Normalize pyval pyval

text \<open>
  Modelled from the spec: the constructor \<^verbatim>\<open>ListedColormap(colors, name, N)\<close> belongs to
  matplotlib and is not in the repository. Called with \<^verbatim>\<open>N=None\<close>, it gives the
  colormap one entry for each element of \<open>colors\<close>, which is the size the spec expects of
  a custom colormap.
\<close>

definition ListedColormap :: "pyval list \<Rightarrow> string \<Rightarrow> nat option \<Rightarrow> colormap" where
  "ListedColormap colors nm N =
     \<lparr>cm_name = nm, cm_colors = colors,
      cm_N = (case N of None \<Rightarrow> length colors | Some n \<Rightarrow> n)\<rparr>"

text \<open>
  The registry \<^verbatim>\<open>colormaps\<close> belongs to matplotlib and is not in the repository, so the
  lookup \<^verbatim>\<open>colormaps[name]\<close> is a parameter of the constructor of \<^verbatim>\<open>Plotter\<close>: any
  function that, for a name, either returns a colormap or raises an exception of the
  library's choosing.
\<close>

type_synonym registry = "string \<Rightarrow> error + colormap"

text \<open>
  The calls the module makes into matplotlib (and \<^verbatim>\<open>print\<close>), with their arguments in
  the order of the source. A figure is known by its number.
\<close>

type_synonym figure = nat

datatype lib_call =
    Figure
  | Set_window_title figure string
  | Xaxis_set_visible bool
  | Yaxis_set_visible bool
  | Mpl_connect figure string
  | FuncAnimation figure func func "int option" bool int bool
  | Print string
  | Anim_save string string "int option"
  | Show
  | Cla
  | Imshow pyval "colormap option" "normalize option"
  | Scatter pyval pyval pyval "colormap option" "normalize option" pyval
  | Quiver pyval pyval pyval pyval pyval pyval
  | Xlim pyval
  | Ylim pyval
  | Set_title string

record pyplot =
  figures :: nat
  calls :: "lib_call list"

definition call :: "lib_call \<Rightarrow> pyplot \<Rightarrow> pyplot" where
  "call c plt = plt\<lparr>calls := calls plt @ [c]\<rparr>"

text \<open>
  Modelled from the spec: \<^verbatim>\<open>plt.figure()\<close> belongs to matplotlib and is not in the
  repository. It makes a new figure and returns it.
\<close>

definition plt_figure :: "pyplot \<Rightarrow> figure \<times> pyplot" where
  "plt_figure plt =
     (Suc (figures plt), call Figure (plt\<lparr>figures := Suc (figures plt)\<rparr>))"

section \<open>Animator\<close>

record animator =
  update :: func
  interval :: int
  init :: func
  running :: bool
  save :: bool
  fps :: "int option"
  cache_frame_data :: bool
  frames :: "int option"
  name :: string
  fig :: figure

text \<open>
  \<^verbatim>\<open>Animator.__init__\<close>. The check of \<open>save\<close> against \<open>frames\<close> comes before the first
  call into the library, and \<open>cache_frame_data\<close> is cleared when \<open>frames\<close> is \<^verbatim>\<open>None\<close>.
\<close>

definition Animator_init ::
  "func \<Rightarrow> func \<Rightarrow> int \<Rightarrow> bool \<Rightarrow> int option \<Rightarrow> int option \<Rightarrow> string \<Rightarrow> pyplot
     \<Rightarrow> error + (animator \<times> pyplot)" where
  "Animator_init upd ini intv sv fp frms nm plt =
     (let cfd = (if frms = None then False else True) in
      if frms = None \<and> sv then Inl (AttributeError ''Need to set frames attribute.'')
      else
        (let (f, plt1) = plt_figure plt;
             plt2 = call (Set_window_title f ''Animator'') plt1;
             plt3 = call (Xaxis_set_visible False) plt2;
             plt4 = call (Yaxis_set_visible False) plt3
         in Inr (\<lparr>update = upd, interval = intv, init = ini, running = True, save = sv,
                   fps = fp, cache_frame_data = cfd, frames = frms, name = nm, fig = f\<rparr>,
                 plt4)))"

text \<open>
  Modelled from the spec: the animation object and its timer belong to matplotlib and are
  not in the repository. The animation that \<^verbatim>\<open>FuncAnimation\<close> returns holds the
  library's timer as its \<open>event_source\<close>, or \<^verbatim>\<open>None\<close> once the library has dropped it.
  \<^verbatim>\<open>start()\<close> and \<^verbatim>\<open>stop()\<close> of the timer switch it on and off.
\<close>

record timer =
  timer_active :: bool

record animation =
  event_source :: "timer option"

definition timer_start :: "timer \<Rightarrow> timer" where
  "timer_start t = t\<lparr>timer_active := True\<rparr>"

definition timer_stop :: "timer \<Rightarrow> timer" where
  "timer_stop t = t\<lparr>timer_active := False\<rparr>"

text \<open>A key-press event: its \<open>key\<close> is a string, or \<^verbatim>\<open>None\<close>.\<close>

record key_event =
  key :: "pystr option"

text \<open>
  \<^verbatim>\<open>on_click\<close>, the handler that \<^verbatim>\<open>animate\<close> registers. It is a closure over the
  animator and the animation, which are its state here. \<^verbatim>\<open>e.key.isspace()\<close> on a key
  that is \<^verbatim>\<open>None\<close> raises \<^verbatim>\<open>AttributeError\<close>.
\<close>

definition on_click :: "animator \<times> animation \<Rightarrow> key_event \<Rightarrow> error + (animator \<times> animation)" where
  "on_click st e =
     (let (self, anim) = st in
      case event_source anim of
        None \<Rightarrow> Inr (self, anim)
      | Some t \<Rightarrow>
          (case key e of
             None \<Rightarrow> Inl (AttributeError ''NoneType object has no attribute isspace'')
           | Some k \<Rightarrow>
               if isspace k then
                 (if running self then
                    Inr (self\<lparr>running := False\<rparr>, anim\<lparr>event_source := Some (timer_stop t)\<rparr>)
                  else
                    Inr (self\<lparr>running := True\<rparr>, anim\<lparr>event_source := Some (timer_start t)\<rparr>))
               else Inr (self, anim)))"

text \<open>
  \<^verbatim>\<open>Animator.animate\<close>: registers the handler, builds the animation with
  \<^verbatim>\<open>repeat=False\<close>, then either saves it under \<open>name\<close> followed by \<^verbatim>\<open>.mp4\<close> with the
  \<^verbatim>\<open>ffmpeg\<close> writer, or shows it.
\<close>

definition animate :: "animator \<Rightarrow> pyplot \<Rightarrow> pyplot" where
  "animate self plt =
     (let plt1 = call (Mpl_connect (fig self) ''key_press_event'') plt;
          plt2 = call (FuncAnimation (fig self) (update self) (init self) (frames self)
                         (cache_frame_data self) (interval self) False) plt1
      in if save self then
           call (Anim_save (name self @ ''.mp4'') ''ffmpeg'' (fps self))
             (call (Print ''Rendering video...'') plt2)
         else call Show plt2)"

section \<open>Plotter\<close>

record plotter =
  cmap :: "colormap option"
  norm :: "normalize option"

text \<open>
  \<^verbatim>\<open>Plotter.__init__\<close>, with the library's lookup \<open>colormaps\<close> as its first argument:
  \<open>standard\<close> is looked up first, and an exception of the lookup is not caught; \<open>custom\<close>
  is read only when \<open>standard\<close> is \<^verbatim>\<open>None\<close>, and then the normalization is set from its
  length.
\<close>

definition Plotter_init ::
  "registry \<Rightarrow> string option \<Rightarrow> pyval list option \<Rightarrow> normalize option \<Rightarrow> error + plotter" where
  "Plotter_init colormaps standard custom nrm =
     (case standard of
        Some s \<Rightarrow>
          (case colormaps s of
             Inl e \<Rightarrow> Inl e
           | Inr cm \<Rightarrow> Inr \<lparr>cmap = Some cm, norm = nrm\<rparr>)
      | None \<Rightarrow>
          (case custom of
             Some cs \<Rightarrow>
               Inr \<lparr>cmap = Some (ListedColormap cs ''custom'' None),
                    norm = Some (Normalize (PInt 0) (PInt (int (length cs) - 1)))\<rparr>
           | None \<Rightarrow> Inr \<lparr>cmap = None, norm = nrm\<rparr>))"

text \<open>\<^verbatim>\<open>Plotter.plot\<close>.\<close>

definition plot :: "plotter \<Rightarrow> pyval \<Rightarrow> pyplot \<Rightarrow> pyplot" where
  "plot self data plt = call (Imshow data (cmap self) (norm self)) (call Cla plt)"

text \<open>
  \<^verbatim>\<open>Plotter.scatter\<close>: a colour argument whose type is not \<^verbatim>\<open>list\<close> is replaced by the
  list of \<^verbatim>\<open>len(x)\<close> copies of it, before anything is drawn.
\<close>

definition scatter ::
  "plotter \<Rightarrow> pyval \<Rightarrow> pyval \<Rightarrow> pyval \<Rightarrow> pyval \<Rightarrow> pyval \<Rightarrow> bool \<Rightarrow> pyval \<Rightarrow> pyplot
     \<Rightarrow> error + pyplot" where
  "scatter self x y xlim ylim c redraw s plt =
     (case (if \<not> type_is_list c
            then (case py_len x of Inl e \<Rightarrow> Inl e | Inr n \<Rightarrow> Inr (PList (replicate n c)))
            else Inr c) of
        Inl e \<Rightarrow> Inl e
      | Inr c' \<Rightarrow>
          (let plt1 = (if redraw then call Cla plt else plt);
               plt2 = call (Scatter x y c' (cmap self) (norm self) s) plt1;
               plt3 = call (Xlim xlim) plt2
           in Inr (call (Ylim ylim) plt3)))"

text \<open>\<^verbatim>\<open>Plotter.quiver\<close>, with the fixed \<^verbatim>\<open>width=0.005\<close> and \<^verbatim>\<open>scale=30\<close>.\<close>

definition quiver :: "plotter \<Rightarrow> pyval \<Rightarrow> pyval \<Rightarrow> pyval \<Rightarrow> pyval \<Rightarrow> pyval \<Rightarrow> pyval \<Rightarrow> pyplot \<Rightarrow> pyplot" where
  "quiver self x y u v xlim ylim plt =
     (let plt1 = call Cla plt;
          plt2 = call (Quiver x y u v (PFloat 5 (- 3)) (PInt 30)) plt1;
          plt3 = call (Xlim xlim) plt2
      in call (Ylim ylim) plt3)"

text \<open>\<^verbatim>\<open>Plotter.title\<close>.\<close>

definition title :: "plotter \<Rightarrow> string \<Rightarrow> pyplot \<Rightarrow> pyplot" where
  "title self text plt = call (Set_title text) plt"

section \<open>Concrete inputs\<close>

text \<open>
  The animator that the constructor builds from its default arguments and one that saves
  fifty frames, an animation whose timer is on, a library that has received no call yet, a
  lookup that knows the one built-in colormap \<^verbatim>\<open>viridis\<close> and raises, for any other
  name, the \<^verbatim>\<open>KeyError\<close> of matplotlib with its message (the name in quotes, then
  \<^verbatim>\<open>is not a known colormap name\<close>), and the plotter built with no argument.
\<close>

definition animator0 :: animator where
  "animator0 = \<lparr>update = Func ''step'', interval = 100, init = Func ''lambda'', running = True,
     save = False, fps = None, cache_frame_data = False, frames = None,
     name = ''simulation'', fig = 1\<rparr>"

definition animation0 :: animation where
  "animation0 = \<lparr>event_source = Some \<lparr>timer_active = True\<rparr>\<rparr>"

definition pyplot0 :: pyplot where
  "pyplot0 = \<lparr>figures = 0, calls = []\<rparr>"

definition animator1 :: animator where
  "animator1 = \<lparr>update = Func ''step'', interval = 100, init = Func ''lambda'', running = True,
     save = True, fps = Some 30, cache_frame_data = True, frames = Some 50,
     name = ''simulation'', fig = 1\<rparr>"

definition viridis :: colormap where
  "viridis = \<lparr>cm_name = ''viridis'', cm_colors = [], cm_N = 256\<rparr>"

definition colormaps0 :: registry where
  "colormaps0 nm =
     (if nm = ''viridis'' then Inr viridis
      else Inl (KeyError (CHR 0x27 # nm @ CHR 0x27 # '' is not a known colormap name'')))"

definition plotter0 :: plotter where
  "plotter0 = \<lparr>cmap = None, norm = None\<rparr>"

section \<open>Properties of Animator\<close>

lemma isspace_space: "isspace [32]"
  by (simp add: isspace_def whitespace_def)

lemma Animator_init_default:
  "Animator_init (Func ''step'') (Func ''lambda'') 100 False None None ''simulation'' pyplot0
     = Inr (animator0,
            \<lparr>figures = 1,
             calls = [Figure, Set_window_title 1 ''Animator'', Xaxis_set_visible False,
                      Yaxis_set_visible False]\<rparr>)"
  by (simp add: Animator_init_def animator0_def pyplot0_def plt_figure_def call_def)

text \<open>
  C1. The constructor raises \<^verbatim>\<open>AttributeError\<close> exactly when \<open>save\<close> is true and
  \<open>frames\<close> is \<^verbatim>\<open>None\<close>, and in every other combination of the two it raises nothing
  and returns the object. (The calls into the library that follow the check are taken to
  return.)
\<close>

theorem Animator_init_raises_iff:
  "(Animator_init upd ini intv sv fp frms nm plt
      = Inl (AttributeError ''Need to set frames attribute.'')) = (sv \<and> frms = None)
   \<and> isl (Animator_init upd ini intv sv fp frms nm plt) = (sv \<and> frms = None)"
  by (auto simp: Animator_init_def Let_def split: prod.splits)

text \<open>
  C2. With a live event source, a key press whose key is the space character (code point
  32) flips \<open>running\<close>: from true to false with the timer stopped, from false to true with
  the timer started; a second press right after the first brings \<open>running\<close> back.
\<close>

theorem on_click_space_toggles:
  assumes "event_source anim = Some t"
  shows "(running self \<longrightarrow>
            on_click (self, anim) \<lparr>key = Some [32]\<rparr>
              = Inr (self\<lparr>running := False\<rparr>, anim\<lparr>event_source := Some (timer_stop t)\<rparr>))
       \<and> (\<not> running self \<longrightarrow>
            on_click (self, anim) \<lparr>key = Some [32]\<rparr>
              = Inr (self\<lparr>running := True\<rparr>, anim\<lparr>event_source := Some (timer_start t)\<rparr>))
       \<and> (\<exists>st1 st2. on_click (self, anim) \<lparr>key = Some [32]\<rparr> = Inr st1
              \<and> on_click st1 \<lparr>key = Some [32]\<rparr> = Inr st2
              \<and> running (fst st1) = (\<not> running self)
              \<and> running (fst st2) = running self)"
  using assms by (cases "running self") (simp_all add: on_click_def isspace_space)

theorem on_click_space_toggles_witness:
  "event_source animation0 = Some \<lparr>timer_active = True\<rparr>
   \<and> running animator0
   \<and> on_click (animator0, animation0) \<lparr>key = Some [32]\<rparr>
       = Inr (animator0\<lparr>running := False\<rparr>,
              animation0\<lparr>event_source := Some \<lparr>timer_active = False\<rparr>\<rparr>)"
proof -
  have h: "event_source animation0 = Some \<lparr>timer_active = True\<rparr>"
    by (simp add: animation0_def)
  have r: "running animator0" by (simp add: animator0_def)
  from on_click_space_toggles [OF h, of animator0] r
  have "on_click (animator0, animation0) \<lparr>key = Some [32]\<rparr>
       = Inr (animator0\<lparr>running := False\<rparr>,
              animation0\<lparr>event_source := Some (timer_stop \<lparr>timer_active = True\<rparr>)\<rparr>)"
    by blast
  then show ?thesis using h r by (simp add: timer_stop_def)
qed

text \<open>
  C8. Right after a construction that succeeded, \<open>running\<close> is true, and
  \<open>cache_frame_data\<close> is true exactly when \<open>frames\<close> is not \<^verbatim>\<open>None\<close>.
\<close>

theorem Animator_init_flags:
  assumes "Animator_init upd ini intv sv fp frms nm plt = Inr (a, plt')"
  shows "running a \<and> (cache_frame_data a \<longleftrightarrow> frms \<noteq> None)"
  using assms by (auto simp: Animator_init_def Let_def split: prod.splits if_splits)

theorem Animator_init_flags_witness:
  "Animator_init (Func ''step'') (Func ''lambda'') 100 False None None ''simulation'' pyplot0
     = Inr (animator0,
            \<lparr>figures = 1,
             calls = [Figure, Set_window_title 1 ''Animator'', Xaxis_set_visible False,
                      Yaxis_set_visible False]\<rparr>)
   \<and> running animator0 \<and> \<not> cache_frame_data animator0"
  using Animator_init_flags [OF Animator_init_default] Animator_init_default by simp

lemma Animator_init_saving:
  "Animator_init (Func ''step'') (Func ''lambda'') 100 True (Some 30) (Some 50) ''simulation''
     pyplot0
     = Inr (animator1,
            \<lparr>figures = 1,
             calls = [Figure, Set_window_title 1 ''Animator'', Xaxis_set_visible False,
                      Yaxis_set_visible False]\<rparr>)"
  by (simp add: Animator_init_def animator1_def pyplot0_def plt_figure_def call_def)

lemma Animator_init_fields:
  assumes "Animator_init upd ini intv sv fp frms nm plt0 = Inr (a, plt1)"
  shows "update a = upd" "init a = ini" "interval a = intv" "save a = sv" "fps a = fp"
    "frames a = frms" "name a = nm" "cache_frame_data a = (frms \<noteq> None)"
  using assms by (auto simp: Animator_init_def Let_def split: prod.splits if_splits)

text \<open>
  C5. For an animator constructed with \<open>save\<close> true, \<^verbatim>\<open>animate\<close> asks the library to save
  the animation under the caller's \<open>name\<close> followed by \<^verbatim>\<open>.mp4\<close>, at the caller's \<open>fps\<close>,
  and does not call \<^verbatim>\<open>plt.show()\<close>; constructed with \<open>save\<close> false, it calls
  \<^verbatim>\<open>plt.show()\<close> and makes no save request. The calls are listed in full: after the
  handler is connected and the animation is built, the remaining calls are either the
  message and the save, or the show.
\<close>

theorem animate_saves_or_shows:
  assumes "Animator_init upd ini intv sv fp frms nm plt0 = Inr (a, plt1)"
  shows "calls (animate a plt) =
           calls plt @
           [Mpl_connect (fig a) ''key_press_event'',
            FuncAnimation (fig a) upd ini frms (frms \<noteq> None) intv False] @
           (if sv then [Print ''Rendering video...'', Anim_save (nm @ ''.mp4'') ''ffmpeg'' fp]
            else [Show])"
  using Animator_init_fields [OF assms] by (simp add: animate_def call_def Let_def)

theorem animate_saves_or_shows_witness:
  "calls (animate animator1 pyplot0) =
     [Mpl_connect 1 ''key_press_event'',
      FuncAnimation 1 (Func ''step'') (Func ''lambda'') (Some 50) True 100 False,
      Print ''Rendering video...'', Anim_save ''simulation.mp4'' ''ffmpeg'' (Some 30)]"
  using animate_saves_or_shows [OF Animator_init_saving, of pyplot0]
  by (simp add: pyplot0_def animator1_def)

text \<open>
  C9, as stated, fails: the handler tests \<^verbatim>\<open>e.key.isspace()\<close>, which is true of more
  keys than the space character. With a live event source and \<open>running\<close> true, a key that
  is the tab character (code point 9) is not the space character, and the handler stops
  the timer and clears \<open>running\<close>.
\<close>

theorem on_click_tab_counterexample:
  "[9::nat] \<noteq> [32]
   \<and> event_source animation0 = Some \<lparr>timer_active = True\<rparr>
   \<and> running animator0
   \<and> on_click (animator0, animation0) \<lparr>key = Some [9]\<rparr>
       = Inr (animator0\<lparr>running := False\<rparr>,
              animation0\<lparr>event_source := Some \<lparr>timer_active = False\<rparr>\<rparr>)"
  by (simp add: on_click_def isspace_def whitespace_def animator0_def animation0_def
      timer_stop_def)

text \<open>
  C9, amended. The handler leaves the animator and the animation (so \<open>running\<close> and the
  timer) as they are when the event source is \<^verbatim>\<open>None\<close>, and when the key is a string on
  which \<^verbatim>\<open>isspace()\<close> is false. With a live event source and a key that is \<^verbatim>\<open>None\<close> it
  raises \<^verbatim>\<open>AttributeError\<close> before it has written anything.
\<close>

theorem on_click_other_keys_unchanged:
  "(event_source anim = None \<longrightarrow> on_click (self, anim) e = Inr (self, anim))
   \<and> (\<forall>k. key e = Some k \<and> \<not> isspace k \<longrightarrow> on_click (self, anim) e = Inr (self, anim))
   \<and> (event_source anim \<noteq> None \<and> key e = None \<longrightarrow>
        on_click (self, anim) e = Inl (AttributeError ''NoneType object has no attribute isspace''))"
  by (auto simp: on_click_def split: option.splits)

theorem on_click_other_keys_unchanged_witness:
  "key \<lparr>key = Some [97]\<rparr> = Some [97] \<and> \<not> isspace [97]
   \<and> on_click (animator0, animation0) \<lparr>key = Some [97]\<rparr> = Inr (animator0, animation0)"
proof -
  have k: "key \<lparr>key = Some [97]\<rparr> = Some [97] \<and> \<not> isspace [97]"
    by (simp add: isspace_def whitespace_def)
  from on_click_other_keys_unchanged [of animation0 animator0 "\<lparr>key = Some [97]\<rparr>"] k
  have "on_click (animator0, animation0) \<lparr>key = Some [97]\<rparr> = Inr (animator0, animation0)"
    by blast
  with k show ?thesis by simp
qed

section \<open>Properties of Plotter\<close>

lemma colormaps0_viridis: "colormaps0 ''viridis'' = Inr viridis"
  by (simp add: colormaps0_def)

lemma colormaps0_unknown:
  "colormaps0 ''no_such_map''
     = Inl (KeyError (CHR 0x27 # ''no_such_map'' @ CHR 0x27 # '' is not a known colormap name''))"
  by (simp add: colormaps0_def)

lemma Plotter_init_viridis:
  "Plotter_init colormaps0 (Some ''viridis'') None (Some (Normalize (PInt 0) (PInt 10)))
     = Inr \<lparr>cmap = Some viridis, norm = Some (Normalize (PInt 0) (PInt 10))\<rparr>"
  by (simp add: Plotter_init_def colormaps0_def)

text \<open>
  C3. With \<open>standard\<close> left as \<^verbatim>\<open>None\<close> and a non-empty sequence as \<open>custom\<close>, the
  constructor stores the listed colormap of that sequence, whose \<open>N\<close> is the length of the
  sequence; with the name of a built-in colormap as \<open>standard\<close>, it stores that colormap.
\<close>

theorem Plotter_init_colormap:
  "(cs \<noteq> [] \<longrightarrow>
      Plotter_init colormaps None (Some cs) nrm
        = Inr \<lparr>cmap = Some (ListedColormap cs ''custom'' None),
               norm = Some (Normalize (PInt 0) (PInt (int (length cs) - 1)))\<rparr>
      \<and> cm_N (ListedColormap cs ''custom'' None) = length cs)
   \<and> (colormaps s = Inr b \<longrightarrow>
        Plotter_init colormaps (Some s) custom nrm = Inr \<lparr>cmap = Some b, norm = nrm\<rparr>)"
  by (simp add: Plotter_init_def ListedColormap_def)

theorem Plotter_init_colormap_witness:
  "Plotter_init colormaps0 None (Some [PInt 1, PInt 2, PInt 3]) None
     = Inr \<lparr>cmap = Some (ListedColormap [PInt 1, PInt 2, PInt 3] ''custom'' None),
            norm = Some (Normalize (PInt 0) (PInt 2))\<rparr>
   \<and> cm_N (ListedColormap [PInt 1, PInt 2, PInt 3] ''custom'' None) = 3
   \<and> Plotter_init colormaps0 (Some ''viridis'') None None
       = Inr \<lparr>cmap = Some viridis, norm = None\<rparr>"
  using Plotter_init_colormap [where cs = "[PInt 1, PInt 2, PInt 3]" and colormaps = colormaps0
      and nrm = None and s = "''viridis''" and b = viridis and custom = None]
    colormaps0_viridis
  by simp

text \<open>
  C7. With a \<open>standard\<close> name that the library does not know, the library's lookup raises,
  and the constructor raises that very exception, whatever its class and message: it is
  neither caught, nor replaced, nor wrapped.
\<close>

theorem Plotter_init_unknown_name:
  assumes "colormaps s = Inl e"
  shows "Plotter_init colormaps (Some s) custom nrm = Inl e"
  using assms by (simp add: Plotter_init_def)

theorem Plotter_init_unknown_name_witness:
  "Plotter_init colormaps0 (Some ''no_such_map'') None None
     = Inl (KeyError (CHR 0x27 # ''no_such_map'' @ CHR 0x27 # '' is not a known colormap name''))
   \<and> Plotter_init (\<lambda>nm. Inl (OtherError ''LookupError'' nm)) (Some ''no_such_map'') None None
       = Inl (OtherError ''LookupError'' ''no_such_map'')"
  using Plotter_init_unknown_name [where colormaps = colormaps0 and s = "''no_such_map''"
      and custom = None and nrm = None, OF colormaps0_unknown]
    Plotter_init_unknown_name [where colormaps = "\<lambda>nm. Inl (OtherError ''LookupError'' nm)"
      and s = "''no_such_map''" and custom = None and nrm = None]
  by simp

text \<open>
  C10. With both a built-in name as \<open>standard\<close> and a \<open>custom\<close> sequence, the stored
  colormap is the built-in one, the stored normalization is the caller's, and the result is
  the one of the same call without \<open>custom\<close>.
\<close>

theorem Plotter_init_standard_first:
  assumes "colormaps s = Inr b"
  shows "Plotter_init colormaps (Some s) (Some cs) nrm = Inr \<lparr>cmap = Some b, norm = nrm\<rparr>
       \<and> Plotter_init colormaps (Some s) (Some cs) nrm = Plotter_init colormaps (Some s) None nrm"
  using assms by (simp add: Plotter_init_def)

theorem Plotter_init_standard_first_witness:
  "Plotter_init colormaps0 (Some ''viridis'') (Some [PInt 1, PInt 2])
       (Some (Normalize (PInt 0) (PInt 10)))
     = Inr \<lparr>cmap = Some viridis, norm = Some (Normalize (PInt 0) (PInt 10))\<rparr>"
  using Plotter_init_standard_first [of colormaps0 "''viridis''" viridis "[PInt 1, PInt 2]"
      "Some (Normalize (PInt 0) (PInt 10))"]
    colormaps0_viridis
  by simp

text \<open>
  C6, as stated, fails: with \<open>standard\<close> left as \<^verbatim>\<open>None\<close> and a \<open>custom\<close> sequence of two
  colours, the caller's normalization from 0 to 10 is replaced by the one from 0 to 1.
\<close>

theorem Plotter_init_norm_counterexample:
  "Plotter_init colormaps0 None (Some [PInt 1, PInt 2])
       (Some (Normalize (PInt 0) (PInt 10)))
     = Inr \<lparr>cmap = Some (ListedColormap [PInt 1, PInt 2] ''custom'' None),
            norm = Some (Normalize (PInt 0) (PInt 1))\<rparr>
   \<and> Some (Normalize (PInt 0) (PInt 1)) \<noteq> Some (Normalize (PInt 0) (PInt 10))"
  by (simp add: Plotter_init_def)

text \<open>
  C6, amended. After a construction that succeeded, the stored normalization is the
  caller's, except when \<open>standard\<close> is \<^verbatim>\<open>None\<close> and \<open>custom\<close> is given: then it is the
  normalization from 0 to the length of \<open>custom\<close> minus one, whatever the caller passed.
\<close>

theorem Plotter_init_norm:
  assumes "Plotter_init colormaps standard custom nrm = Inr p"
  shows "norm p = (case (standard, custom) of
                     (None, Some cs) \<Rightarrow>
                       Some (Normalize (PInt 0) (PInt (int (length cs) - 1)))
                   | _ \<Rightarrow> nrm)"
  using assms
  by (auto simp: Plotter_init_def split: option.splits sum.splits)

theorem Plotter_init_norm_witness:
  "Plotter_init colormaps0 (Some ''viridis'') None (Some (Normalize (PInt 0) (PInt 10)))
     = Inr \<lparr>cmap = Some viridis, norm = Some (Normalize (PInt 0) (PInt 10))\<rparr>
   \<and> norm \<lparr>cmap = Some viridis, norm = Some (Normalize (PInt 0) (PInt 10))\<rparr>
       = Some (Normalize (PInt 0) (PInt 10))"
  using Plotter_init_norm [OF Plotter_init_viridis] Plotter_init_viridis by simp

text \<open>
  C4, as stated, fails for the colour argument of \<^verbatim>\<open>scatter\<close>: called with the integer 7 as
  \<open>c\<close> and two points, the library receives the list of two sevens, not 7.
\<close>

theorem scatter_color_counterexample:
  "scatter plotter0 (PList [PInt 1, PInt 2]) (PList [PInt 3, PInt 4])
       (PTuple [PInt 0, PInt 10]) (PTuple [PInt 0, PInt 10]) (PInt 7) True (PFloat 36 0) pyplot0
     = Inr \<lparr>figures = 0,
            calls = [Cla,
                     Scatter (PList [PInt 1, PInt 2]) (PList [PInt 3, PInt 4])
                       (PList [PInt 7, PInt 7]) None None (PFloat 36 0),
                     Xlim (PTuple [PInt 0, PInt 10]), Ylim (PTuple [PInt 0, PInt 10])]\<rparr>
   \<and> PList [PInt 7, PInt 7] \<noteq> PInt 7"
  by (simp add: scatter_def plotter0_def pyplot0_def call_def)

text \<open>
  C4, amended. \<^verbatim>\<open>plot\<close> and \<^verbatim>\<open>quiver\<close> hand \<open>data\<close>, \<open>x\<close>, \<open>y\<close>, \<open>u\<close> and \<open>v\<close> to the
  library as given. Every call of \<^verbatim>\<open>scatter\<close> that reaches the library hands over \<open>x\<close>
  and \<open>y\<close> as given: it reaches the library when \<open>c\<close> is a list or \<open>x\<close> has a length, and
  otherwise raises the \<^verbatim>\<open>TypeError\<close> of \<^verbatim>\<open>len(x)\<close> before any call. \<^verbatim>\<open>scatter\<close> hands
  over \<open>c\<close> as given when it is a list; when \<open>c\<close> is a scalar (\<^verbatim>\<open>None\<close>, an integer or a
  float) and \<open>x\<close> has a length, the library receives the list of \<^verbatim>\<open>len(x)\<close> copies of
  \<open>c\<close>.
\<close>

theorem plotting_calls_pass_arguments:
  "calls (plot p d plt) = calls plt @ [Cla, Imshow d (cmap p) (norm p)]
   \<and> calls (quiver p x y u v xlim ylim plt)
       = calls plt @ [Cla, Quiver x y u v (PFloat 5 (- 3)) (PInt 30), Xlim xlim, Ylim ylim]
   \<and> (\<exists>plt'. scatter p x y xlim ylim (PList cs) redraw s plt = Inr plt'
         \<and> calls plt' = calls plt @ (if redraw then [Cla] else [])
               @ [Scatter x y (PList cs) (cmap p) (norm p) s, Xlim xlim, Ylim ylim])
   \<and> (\<forall>n. py_len x = Inr n \<and> (c = PNone \<or> (\<exists>k. c = PInt k) \<or> (\<exists>m e. c = PFloat m e)) \<longrightarrow>
        (\<exists>plt'. scatter p x y xlim ylim c redraw s plt = Inr plt'
           \<and> calls plt' = calls plt @ (if redraw then [Cla] else [])
                 @ [Scatter x y (PList (replicate n c)) (cmap p) (norm p) s,
                    Xlim xlim, Ylim ylim]))
   \<and> (\<forall>n. py_len x = Inr n \<longrightarrow>
        (\<exists>plt' c'. scatter p x y xlim ylim c redraw s plt = Inr plt'
           \<and> calls plt' = calls plt @ (if redraw then [Cla] else [])
                 @ [Scatter x y c' (cmap p) (norm p) s, Xlim xlim, Ylim ylim]))
   \<and> (\<forall>e. \<not> type_is_list c \<and> py_len x = Inl e \<longrightarrow>
        scatter p x y xlim ylim c redraw s plt = Inl e)"
  by (auto simp: plot_def quiver_def scatter_def call_def Let_def)

theorem plotting_calls_pass_arguments_witness:
  "py_len (PList [PInt 1, PInt 2]) = Inr 2
   \<and> (\<exists>plt'. scatter plotter0 (PList [PInt 1, PInt 2]) (PList [PInt 3, PInt 4])
                (PTuple [PInt 0, PInt 10]) (PTuple [PInt 0, PInt 10]) PNone True (PFloat 36 0)
                pyplot0 = Inr plt'
         \<and> calls plt' = [Cla,
               Scatter (PList [PInt 1, PInt 2]) (PList [PInt 3, PInt 4])
                 (PList [PNone, PNone]) None None (PFloat 36 0),
               Xlim (PTuple [PInt 0, PInt 10]), Ylim (PTuple [PInt 0, PInt 10])])
   \<and> \<not> type_is_list (PTuple [PInt 5])
   \<and> py_len (PInt 3) = Inl (TypeError ''object of type int has no len()'')
   \<and> scatter plotter0 (PInt 3) (PInt 4) (PTuple [PInt 0, PInt 10]) (PTuple [PInt 0, PInt 10])
         (PTuple [PInt 5]) True (PFloat 36 0) pyplot0
       = Inl (TypeError ''object of type int has no len()'')"
proof -
  have l: "py_len (PList [PInt 1, PInt 2]) = Inr 2" by simp
  from plotting_calls_pass_arguments [where p = plotter0 and plt = pyplot0
      and x = "PList [PInt 1, PInt 2]" and y = "PList [PInt 3, PInt 4]"
      and xlim = "PTuple [PInt 0, PInt 10]" and ylim = "PTuple [PInt 0, PInt 10]"
      and redraw = True and s = "PFloat 36 0" and c = PNone] l
  have "\<exists>plt'. scatter plotter0 (PList [PInt 1, PInt 2]) (PList [PInt 3, PInt 4])
                (PTuple [PInt 0, PInt 10]) (PTuple [PInt 0, PInt 10]) PNone True (PFloat 36 0)
                pyplot0 = Inr plt'
         \<and> calls plt' = calls pyplot0 @ (if True then [Cla] else [])
               @ [Scatter (PList [PInt 1, PInt 2]) (PList [PInt 3, PInt 4])
                 (PList (replicate 2 PNone)) (cmap plotter0) (norm plotter0) (PFloat 36 0),
               Xlim (PTuple [PInt 0, PInt 10]), Ylim (PTuple [PInt 0, PInt 10])]"
    by blast
  then have a: "\<exists>plt'. scatter plotter0 (PList [PInt 1, PInt 2]) (PList [PInt 3, PInt 4])
                (PTuple [PInt 0, PInt 10]) (PTuple [PInt 0, PInt 10]) PNone True (PFloat 36 0)
                pyplot0 = Inr plt'
         \<and> calls plt' = [Cla,
               Scatter (PList [PInt 1, PInt 2]) (PList [PInt 3, PInt 4])
                 (PList [PNone, PNone]) None None (PFloat 36 0),
               Xlim (PTuple [PInt 0, PInt 10]), Ylim (PTuple [PInt 0, PInt 10])]"
    by (simp add: pyplot0_def plotter0_def numeral_2_eq_2)
  have t: "\<not> type_is_list (PTuple [PInt 5])" by simp
  have e: "py_len (PInt 3) = Inl (TypeError ''object of type int has no len()'')" by simp
  from plotting_calls_pass_arguments [where p = plotter0 and plt = pyplot0
      and x = "PInt 3" and y = "PInt 4"
      and xlim = "PTuple [PInt 0, PInt 10]" and ylim = "PTuple [PInt 0, PInt 10]"
      and redraw = True and s = "PFloat 36 0" and c = "PTuple [PInt 5]"] t e
  have b: "scatter plotter0 (PInt 3) (PInt 4) (PTuple [PInt 0, PInt 10])
         (PTuple [PInt 0, PInt 10]) (PTuple [PInt 5]) True (PFloat 36 0) pyplot0
       = Inl (TypeError ''object of type int has no len()'')"
    by blast
  from l a t e b show ?thesis by blast
qed

end
